theory Spec2Isabelle
  imports Main "HOL-Library.AList"
begin

section \<open>The chat system (class ChatSystem of src/ethiopian-payments.js)\<close>

text \<open>
  The class keeps its whole state in fields of \<open>this\<close>; every method is modelled as a
  function from the state before the call to the state after it. What the class hands to
  its collaborators is recorded in the state as well: \<open>wire\<close> is the sequence of frames
  given to \<open>ws.send\<close>, \<open>notifications\<close> the calls of the \<open>Notifications\<close> widget,
  \<open>console\<close> the diagnostics written by \<open>console.error\<close>, and \<open>timers\<close> the delays of
  the reconnect timers started by \<open>setTimeout\<close> that have not fired yet.
  DOM rendering and the \<open>localStorage\<close> mirror written by \<open>saveData\<close> are collaborators
  outside the model.

  Message objects are shared: \<open>sendMessage\<close> puts the same object into the room history
  and into the offline queue, and \<open>updateMessageStatus\<close> mutates it in place. The objects
  therefore live in a store (\<open>objects\<close>), and histories and the queue hold references.
\<close>

record message =
  msgId :: string
  msgRoomId :: string
  msgUserId :: string
  msgUserName :: string
  msgText :: string
  msgTimestamp :: nat
  msgStatus :: string

record room =
  roomName :: string
  roomType :: string
  roomParticipants :: "string list"

datatype frame =
    AuthFrame string string
  | MessageFrame message
  | LeaveFrame string
  | ReadFrame string "string option"
  | PongFrame

datatype notification =
    NSuccess string
  | NError string
  | NWarning string
  | NInfo string
  | NInfoReconnecting nat

datatype promise = Pending | Resolved | Rejected

record chat_config =
  reconnectAttempts :: nat
  reconnectDelay :: nat
  messageLimit :: nat

record chat =
  config :: chat_config
  ws :: bool
  connected :: bool
  reconnectCount :: nat
  userId :: string
  userName :: string
  currentRoom :: "string option"
  rooms :: "(string \<times> room) list"
  messages :: "(string \<times> nat list) list"
  typingUsers :: "string \<rightharpoonup> string"
  unreadCounts :: "string \<rightharpoonup> nat"
  messageQueue :: "nat list"
  objects :: "nat \<Rightarrow> message"
  nextObject :: nat
  wire :: "frame list"
  notifications :: "notification list"
  timers :: "nat list"
  console :: "string list"
  connectPromise :: promise

text \<open>
  \<open>ws\<close> is true when \<open>this.ws\<close> holds a socket object (it is \<open>null\<close> until the first
  \<open>connect\<close>). \<open>rooms\<close> and \<open>messages\<close> are JavaScript \<open>Map\<close>s, whose iteration order is
  the insertion order: association lists, written with \<open>AList.update\<close> (replace in place,
  or append a new key at the end) and read with \<open>map_of\<close>. Delays and limits are
  natural numbers (milliseconds and counts).
\<close>

definition notify :: "chat \<Rightarrow> notification \<Rightarrow> chat" where
  "notify st n = st\<lparr>notifications := notifications st @ [n]\<rparr>"

definition consoleError :: "chat \<Rightarrow> string \<Rightarrow> chat" where
  "consoleError st line = st\<lparr>console := console st @ [line]\<rparr>"

text \<open>\<open>send(data)\<close>, lines 1605-1609: the frame is handed to the socket only when the
  connection is up; otherwise nothing happens.\<close>

definition send :: "chat \<Rightarrow> frame \<Rightarrow> chat" where
  "send st data = (if connected st \<and> ws st then st\<lparr>wire := wire st @ [data]\<rparr> else st)"

text \<open>\<open>addMessageToRoom(roomId, message)\<close>, lines 1000-1015. \<open>splice(0, n)\<close> removes the
  first \<open>n\<close> entries of the array.\<close>

definition addMessageToRoom :: "chat \<Rightarrow> string \<Rightarrow> nat \<Rightarrow> chat" where
  "addMessageToRoom st rid message =
     (let roomMessages = (case map_of (messages st) rid of None \<Rightarrow> [] | Some ms \<Rightarrow> ms) @ [message];
          limit = messageLimit (config st);
          roomMessages' = (if length roomMessages > limit
                           then drop (length roomMessages - limit) roomMessages
                           else roomMessages)
      in st\<lparr>messages := AList.update rid roomMessages' (messages st)\<rparr>)"

text \<open>\<open>findMessage(messageId)\<close>, lines 1352-1358: the first room, in insertion order, that
  holds a message with this id, and the first such message in it.\<close>

fun findMessageIn :: "(nat \<Rightarrow> message) \<Rightarrow> (string \<times> nat list) list \<Rightarrow> string \<Rightarrow> nat option" where
  "findMessageIn obj [] messageId = None"
| "findMessageIn obj ((rid, ms) # rest) messageId =
     (case find (\<lambda>m. msgId (obj m) = messageId) ms of
        Some m \<Rightarrow> Some m
      | None \<Rightarrow> findMessageIn obj rest messageId)"

definition findMessage :: "chat \<Rightarrow> string \<Rightarrow> nat option" where
  "findMessage st messageId = findMessageIn (objects st) (messages st) messageId"

text \<open>\<open>updateMessageStatus(messageId, status)\<close>, lines 1388-1400.\<close>

definition updateMessageStatus :: "chat \<Rightarrow> string \<Rightarrow> string \<Rightarrow> chat" where
  "updateMessageStatus st messageId status =
     (case findMessage st messageId of
        None \<Rightarrow> st
      | Some m \<Rightarrow> st\<lparr>objects := (objects st)(m := (objects st m)\<lparr>msgStatus := status\<rparr>)\<rparr>)"

definition markMessageAsRead :: "chat \<Rightarrow> string \<Rightarrow> chat" where
  "markMessageAsRead st messageId = send st (ReadFrame messageId (currentRoom st))"

definition incrementUnreadCount :: "chat \<Rightarrow> string \<Rightarrow> chat" where
  "incrementUnreadCount st rid =
     (let current = (case unreadCounts st rid of None \<Rightarrow> 0 | Some c \<Rightarrow> c)
      in st\<lparr>unreadCounts := (unreadCounts st)(rid \<mapsto> current + 1)\<rparr>)"

definition getRoomName :: "chat \<Rightarrow> string \<Rightarrow> string" where
  "getRoomName st rid = (case map_of (rooms st) rid of None \<Rightarrow> rid | Some r \<Rightarrow> roomName r)"

text \<open>A freshly created or freshly decoded message object enters the store.\<close>

definition newObject :: "chat \<Rightarrow> message \<Rightarrow> nat \<times> chat" where
  "newObject st m =
     (nextObject st, st\<lparr>objects := (objects st)(nextObject st := m), nextObject := nextObject st + 1\<rparr>)"

text \<open>\<open>handleIncomingMessage(message)\<close>, lines 905-925.\<close>

definition handleIncomingMessage :: "chat \<Rightarrow> message \<Rightarrow> chat" where
  "handleIncomingMessage st message =
     (if msgUserId message = userId st
      then updateMessageStatus st (msgId message) ''delivered''
      else
        (let (m, st0) = newObject st message;
             st1 = addMessageToRoom st0 (msgRoomId message) m
         in if currentRoom st1 = Some (msgRoomId message)
            then markMessageAsRead st1 (msgId message)
            else notify (incrementUnreadCount st1 (msgRoomId message))
                   (NInfo (''New message from '' @ msgUserName message @ '' in ''
                           @ getRoomName st1 (msgRoomId message)))))"

definition handleIncomingFile :: "chat \<Rightarrow> message \<Rightarrow> chat" where
  "handleIncomingFile st fileMessage = handleIncomingMessage st fileMessage"

text \<open>
  An inbound socket event carries text. \<open>JSON.parse\<close> either throws (\<open>Unparseable\<close>) or
  yields the decoded frame; the fields the handlers read are those of \<open>data\<close>. A field
  that may be absent is an option. \<open>data.message\<close> is a message object for the
  \<open>message\<close> and \<open>file\<close> cases (\<open>dataMessage\<close>) and a text for the \<open>error\<close> case
  (\<open>dataText\<close>).
\<close>

record data =
  dataType :: string
  dataMessage :: "message option"
  dataText :: string
  dataRoomId :: "string option"
  dataUserId :: string
  dataUserName :: string
  dataIsTyping :: bool

datatype inbound = Unparseable | Parsed data

text \<open>\<open>handleTypingIndicator(data)\<close>, lines 932-944.\<close>

definition handleTypingIndicator :: "chat \<Rightarrow> data \<Rightarrow> chat" where
  "handleTypingIndicator st d =
     (if dataRoomId d = None \<or> dataRoomId d \<noteq> currentRoom st then st
      else if dataIsTyping d
      then st\<lparr>typingUsers := (typingUsers st)(dataUserId d \<mapsto> dataUserName d)\<rparr>
      else st\<lparr>typingUsers := (typingUsers st)(dataUserId d := None)\<rparr>)"

text \<open>
  What a \<open>case\<close> of the \<open>switch\<close> in \<open>handleMessage\<close> does: it returns, or it throws
  inside the \<open>try\<close> block. The methods \<open>handleRoomUpdate\<close>, \<open>handleUserJoined\<close>,
  \<open>handleUserLeft\<close> and \<open>handleMessageRead\<close> are called by the switch but defined nowhere
  in the class, so calling them throws a \<open>TypeError\<close>; so does reading \<open>message.userId\<close>
  when the frame has no \<open>message\<close>.
\<close>

datatype outcome = Returns chat | Throws chat

definition dispatch :: "chat \<Rightarrow> data \<Rightarrow> outcome" where
  "dispatch st d =
     (if dataType d = ''message'' then
        (case dataMessage d of None \<Rightarrow> Throws st | Some m \<Rightarrow> Returns (handleIncomingMessage st m))
      else if dataType d = ''file'' then
        (case dataMessage d of None \<Rightarrow> Throws st | Some m \<Rightarrow> Returns (handleIncomingFile st m))
      else if dataType d = ''typing'' then Returns (handleTypingIndicator st d)
      else if dataType d = ''room_update'' then Throws st
      else if dataType d = ''user_joined'' then Throws st
      else if dataType d = ''user_left'' then Throws st
      else if dataType d = ''message_read'' then Throws st
      else if dataType d = ''error'' then Returns (notify st (NError (dataText d)))
      else if dataType d = ''ping'' then Returns (send st PongFrame)
      else Returns st)"

text \<open>The \<open>case\<close> labels of the \<open>switch\<close>; the statement has no \<open>default\<close> branch.\<close>

definition caseLabels :: "string list" where
  "caseLabels = [''message'', ''file'', ''typing'', ''room_update'', ''user_joined'',
                 ''user_left'', ''message_read'', ''error'', ''ping'']"

text \<open>\<open>handleMessage(event)\<close>, lines 858-903: the \<open>catch\<close> logs and swallows whatever
  the \<open>try\<close> block threw.\<close>

definition handleMessage :: "chat \<Rightarrow> inbound \<Rightarrow> chat" where
  "handleMessage st event =
     (case event of
        Unparseable \<Rightarrow> consoleError st ''Failed to parse message:''
      | Parsed d \<Rightarrow>
          (case dispatch st d of
             Returns st' \<Rightarrow> st'
           | Throws st' \<Rightarrow> consoleError st' ''Failed to parse message:''))"

text \<open>\<open>processMessageQueue()\<close>, lines 1433-1445. The \<open>while\<close> loop shifts the head of the
  queue and sends it; \<open>JSON.stringify\<close> puts the object's current value on the wire.\<close>

function processMessageQueue_loop :: "chat \<Rightarrow> chat" where
  "processMessageQueue_loop st =
     (case messageQueue st of
        [] \<Rightarrow> st
      | message # rest \<Rightarrow>
          processMessageQueue_loop (send (st\<lparr>messageQueue := rest\<rparr>) (MessageFrame (objects st message))))"
  by pat_completeness auto
termination
  by (relation "measure (\<lambda>st. length (messageQueue st))") (auto simp: send_def)

definition processMessageQueue :: "chat \<Rightarrow> chat" where
  "processMessageQueue st =
     (if \<not> connected st \<or> messageQueue st = [] then st
      else notify (processMessageQueue_loop st) (NSuccess ''Queued messages sent''))"

text \<open>
  \<open>connect()\<close>, lines 384-420, creates the socket and a promise and installs four
  handlers. The call itself is \<open>connect\<close>; each handler is a function of its own, run
  when the browser delivers the event. A promise settles once: \<open>resolve\<close> and \<open>reject\<close>
  do nothing to a settled promise.
\<close>

definition connect :: "chat \<Rightarrow> chat" where
  "connect st = st\<lparr>ws := True, connectPromise := Pending\<rparr>"

definition settle :: "promise \<Rightarrow> chat \<Rightarrow> chat" where
  "settle p st = (if connectPromise st = Pending then st\<lparr>connectPromise := p\<rparr> else st)"

definition ws_onopen :: "chat \<Rightarrow> chat" where
  "ws_onopen st =
     (let st1 = st\<lparr>connected := True, reconnectCount := 0\<rparr>;
          st2 = send st1 (AuthFrame (userId st1) (userName st1));
          st3 = processMessageQueue st2;
          st4 = notify st3 (NSuccess ''Connected to chat server'')
      in settle Resolved st4)"

definition ws_onerror :: "chat \<Rightarrow> chat" where
  "ws_onerror st = settle Rejected (consoleError st ''WebSocket error:'')"

text \<open>\<open>handleDisconnection()\<close>, lines 422-440.\<close>

definition handleDisconnection :: "chat \<Rightarrow> chat" where
  "handleDisconnection st =
     (let st1 = notify st (NWarning ''Disconnected from chat server'')
      in if reconnectCount st1 < reconnectAttempts (config st1)
         then
           (let st2 = st1\<lparr>reconnectCount := reconnectCount st1 + 1\<rparr>;
                delay = reconnectDelay (config st2) * reconnectCount st2;
                st3 = notify st2 (NInfoReconnecting delay)
            in st3\<lparr>timers := timers st3 @ [delay]\<rparr>)
         else notify st1 (NError ''Failed to reconnect. Please refresh the page.''))"

definition ws_onclose :: "chat \<Rightarrow> chat" where
  "ws_onclose st = handleDisconnection (st\<lparr>connected := False\<rparr>)"

definition ws_onmessage :: "chat \<Rightarrow> inbound \<Rightarrow> chat" where
  "ws_onmessage st event = handleMessage st event"

text \<open>The callback of the reconnect timer calls \<open>connect\<close> again.\<close>

definition timer_fires :: "chat \<Rightarrow> chat" where
  "timer_fires st = (case timers st of [] \<Rightarrow> st | d # ds \<Rightarrow> connect (st\<lparr>timers := ds\<rparr>))"

datatype event = WsOpen | WsError | WsClose | WsMessage inbound | TimerFires

fun step :: "chat \<Rightarrow> event \<Rightarrow> chat" where
  "step st WsOpen = ws_onopen st"
| "step st WsError = ws_onerror st"
| "step st WsClose = ws_onclose st"
| "step st (WsMessage e) = ws_onmessage st e"
| "step st TimerFires = timer_fires st"

definition run :: "chat \<Rightarrow> event list \<Rightarrow> chat" where
  "run st es = foldl step st es"

text \<open>
  \<open>sendMessage(text, roomId = null)\<close>, lines 648-679. \<open>a || b\<close> is \<open>b\<close> when \<open>a\<close> is
  \<open>null\<close> or the empty string. The identifier made by \<open>generateMessageId\<close> and the clock
  value of \<open>Date.now()\<close> are inputs.
\<close>

definition truthy :: "string option \<Rightarrow> bool" where
  "truthy v = (case v of None \<Rightarrow> False | Some s \<Rightarrow> s \<noteq> [])"

definition js_or :: "string option \<Rightarrow> string option \<Rightarrow> string option" where
  "js_or a b = (if truthy a then a else b)"

definition sendMessage :: "chat \<Rightarrow> string \<Rightarrow> string option \<Rightarrow> string \<Rightarrow> nat \<Rightarrow> chat" where
  "sendMessage st text rid newId now =
     (let targetRoom = js_or rid (currentRoom st)
      in if \<not> truthy targetRoom then notify st (NWarning ''Please select a chat room first'')
         else
           (let message = \<lparr>msgId = newId, msgRoomId = the targetRoom, msgUserId = userId st,
                           msgUserName = userName st, msgText = text, msgTimestamp = now,
                           msgStatus = ''sending''\<rparr>;
                (m, st0) = newObject st message;
                st1 = addMessageToRoom st0 (the targetRoom) m
            in if connected st1 then send st1 (MessageFrame message)
               else notify (st1\<lparr>messageQueue := messageQueue st1 @ [m]\<rparr>)
                      (NInfo ''Message queued (offline)'')))"



section \<open>The media room (class MediaRoom of src/unnamed/part_001)\<close>

text \<open>
  Media tracks and peer connections are browser objects that several fields refer to:
  the tracks of the local stream are the tracks of every connection's senders, and a
  connection stays alive after it has left the \<open>peerConnections\<close> map. Both live in
  stores (\<open>tracks\<close>, \<open>peers\<close>) and are named by references. A peer connection records
  the calls made on it (\<open>calls\<close>), the track each of its senders carries (\<open>senders\<close>;
  a sender's track may be \<open>null\<close>) and whether \<open>close()\<close> was called. The signalling
  socket records the frames given to its \<open>send\<close> and whether it is open; the keys of
  the \<open>peerConnections\<close> map are whatever the frames carried, \<open>None\<close> standing for
  \<open>undefined\<close>. What the browser does with a call (negotiation, the local preview
  in the DOM) is outside the model.
\<close>

datatype kind = Audio | Video

record track =
  trackKind :: kind
  trackStopped :: bool

datatype pc_call =
    SetRemoteDescription string
  | CreateAnswer
  | SetLocalDescription string
  | AddIceCandidate string
  | Close

record peer =
  senders :: "nat option list"
  calls :: "pc_call list"
  closed :: bool

datatype signal =
    SignalLeave "string option"
  | SignalAnswer "string option" "string option" string

record socket =
  socketOpen :: bool
  socketSent :: "signal list"

record media =
  peerConnections :: "(string option \<times> nat) list"
  peers :: "nat \<Rightarrow> peer"
  nextPeer :: nat
  tracks :: "nat \<Rightarrow> track"
  localStream :: "nat list option"
  screenStream :: "nat list option"
  isCallActive :: bool
  isScreenSharing :: bool
  roomId :: "string option"
  participants :: "(string option \<times> string) list"
  signaling :: "socket option"
  mediaNotifications :: "notification list"
  mediaConsole :: "string list"


datatype media_outcome = MediaReturns media | MediaThrows string media

definition mediaNotify :: "media \<Rightarrow> notification \<Rightarrow> media" where
  "mediaNotify st n = st\<lparr>mediaNotifications := mediaNotifications st @ [n]\<rparr>"

text \<open>\<open>stream.getVideoTracks()[0]\<close>: the first track of the kind, or \<open>undefined\<close>.\<close>

definition firstTrack :: "(nat \<Rightarrow> track) \<Rightarrow> kind \<Rightarrow> nat list \<Rightarrow> nat option" where
  "firstTrack tr k stream = find (\<lambda>t. trackKind (tr t) = k) stream"

text \<open>
  \<open>const sender = pc.getSenders().find(s => s.track?.kind === k); if (sender)
  sender.replaceTrack(t)\<close>: the first sender that carries a track of the kind gets the
  new track; a connection without such a sender is left alone.
\<close>

definition carries :: "(nat \<Rightarrow> track) \<Rightarrow> kind \<Rightarrow> nat option \<Rightarrow> bool" where
  "carries tr k s = (case s of None \<Rightarrow> False | Some t \<Rightarrow> trackKind (tr t) = k)"

fun replaceTrack :: "(nat \<Rightarrow> track) \<Rightarrow> kind \<Rightarrow> nat option \<Rightarrow> nat option list \<Rightarrow> nat option list" where
  "replaceTrack tr k new [] = []"
| "replaceTrack tr k new (s # ss) =
     (if carries tr k s then new # ss else s # replaceTrack tr k new ss)"

definition replaceInPeer :: "(nat \<Rightarrow> track) \<Rightarrow> kind \<Rightarrow> nat option \<Rightarrow> peer \<Rightarrow> peer" where
  "replaceInPeer tr k new pc = pc\<lparr>senders := replaceTrack tr k new (senders pc)\<rparr>"

text \<open>\<open>this.peerConnections.forEach(pc => ...)\<close> visits the connections in the map's order.\<close>

definition onPeer :: "(peer \<Rightarrow> peer) \<Rightarrow> string option \<times> nat \<Rightarrow> (nat \<Rightarrow> peer) \<Rightarrow> (nat \<Rightarrow> peer)" where
  "onPeer f entry ps = ps(snd entry := f (ps (snd entry)))"

definition forEachPeer :: "(peer \<Rightarrow> peer) \<Rightarrow> media \<Rightarrow> media" where
  "forEachPeer f st = st\<lparr>peers := fold (onPeer f) (peerConnections st) (peers st)\<rparr>"

text \<open>\<open>stream.getTracks().forEach(track => track.stop())\<close>.\<close>

definition stop :: "nat \<Rightarrow> (nat \<Rightarrow> track) \<Rightarrow> (nat \<Rightarrow> track)" where
  "stop t tr = tr(t := (tr t)\<lparr>trackStopped := True\<rparr>)"

definition stopTracks :: "nat list \<Rightarrow> media \<Rightarrow> media" where
  "stopTracks stream st = st\<lparr>tracks := fold stop stream (tracks st)\<rparr>"

text \<open>
  \<open>startScreenShare()\<close>, lines 180-223. The argument is what \<open>getDisplayMedia\<close> settled
  with: the name of the error it rejected with, or the captured stream. When the stream
  has no video track, \<open>screenTrack\<close> is \<open>undefined\<close>, \<open>replaceTrack(undefined)\<close> clears
  the sender, and the assignment to \<open>screenTrack.onended\<close> throws a \<open>TypeError\<close>.
\<close>

definition startScreenShare_failed :: "media \<Rightarrow> string \<Rightarrow> media_outcome" where
  "startScreenShare_failed st name =
     (if name \<noteq> ''NotAllowedError''
      then MediaThrows name
             (mediaNotify (st\<lparr>mediaConsole := mediaConsole st @ [''Screen share failed:'']\<rparr>)
                (NError ''Failed to start screen sharing''))
      else MediaThrows name st)"

definition startScreenShare :: "media \<Rightarrow> string + nat list \<Rightarrow> media_outcome" where
  "startScreenShare st displayMedia =
     (case displayMedia of
        Inl name \<Rightarrow> startScreenShare_failed st name
      | Inr stream \<Rightarrow>
          (let st1 = st\<lparr>screenStream := Some stream\<rparr>;
               screenTrack = firstTrack (tracks st1) Video stream;
               st2 = forEachPeer (replaceInPeer (tracks st1) Video screenTrack) st1;
               st3 = mediaNotify (st2\<lparr>isScreenSharing := True\<rparr>) (NSuccess ''Screen sharing started'')
           in if screenTrack = None then startScreenShare_failed st3 ''TypeError''
              else MediaReturns st3))"

text \<open>\<open>stopScreenShare()\<close>, lines 225-251.\<close>

definition stopScreenShare :: "media \<Rightarrow> media" where
  "stopScreenShare st =
     (case screenStream st of
        None \<Rightarrow> st
      | Some stream \<Rightarrow>
          (let st1 = stopTracks stream st;
               videoTrack = (case localStream st1 of None \<Rightarrow> None
                             | Some l \<Rightarrow> firstTrack (tracks st1) Video l);
               st2 = (case videoTrack of
                        None \<Rightarrow> st1
                      | Some v \<Rightarrow> forEachPeer (replaceInPeer (tracks st1) Video (Some v)) st1)
           in mediaNotify (st2\<lparr>screenStream := None, isScreenSharing := False\<rparr>)
                (NSuccess ''Screen sharing stopped'')))"



text \<open>\<open>createPeerConnection(userId)\<close>, lines 501-542: a new connection with one sender
  per track of the local stream, stored under \<open>userId\<close> (replacing, not closing, a
  connection already stored under that key).\<close>

definition createPeerConnection :: "media \<Rightarrow> string option \<Rightarrow> nat \<times> media" where
  "createPeerConnection st uid =
     (let pc = nextPeer st;
          new = \<lparr>senders = (case localStream st of None \<Rightarrow> [] | Some l \<Rightarrow> map Some l),
                 calls = [], closed = False\<rparr>
      in (pc, st\<lparr>peers := (peers st)(pc := new), nextPeer := pc + 1,
                  peerConnections := AList.update uid pc (peerConnections st)\<rparr>))"






section \<open>Drivers\<close>

text \<open>
  A user who sends several messages in a row calls \<open>sendMessage(text)\<close> once per message;
  each call draws a new identifier and reads the clock. \<open>outgoing\<close> is the message
  object such a call builds (lines 655-663).
\<close>

definition sendAll :: "chat \<Rightarrow> (string \<times> string \<times> nat) list \<Rightarrow> chat" where
  "sendAll st inputs = foldl (\<lambda>s (text, newId, now). sendMessage s text None newId now) st inputs"

definition outgoing :: "chat \<Rightarrow> string \<Rightarrow> string \<times> string \<times> nat \<Rightarrow> message" where
  "outgoing st rid input =
     (case input of (text, newId, now) \<Rightarrow>
        \<lparr>msgId = newId, msgRoomId = rid, msgUserId = userId st, msgUserName = userName st,
         msgText = text, msgTimestamp = now, msgStatus = ''sending''\<rparr>)"

section \<open>Initial states\<close>

text \<open>
  The constructor of \<open>ChatSystem\<close> (lines 323-350) followed by the two assignments of
  \<open>initialize\<close> that fix the user; every map is empty, the socket is absent. The
  configuration defaults are those of the constructor.
\<close>

definition defaultConfig :: chat_config where
  "defaultConfig = \<lparr>reconnectAttempts = 5, reconnectDelay = 3000, messageLimit = 1000\<rparr>"

definition noMessage :: message where
  "noMessage = \<lparr>msgId = [], msgRoomId = [], msgUserId = [], msgUserName = [], msgText = [],
                 msgTimestamp = 0, msgStatus = []\<rparr>"

definition newChatSystem :: "chat_config \<Rightarrow> string \<Rightarrow> string \<Rightarrow> chat" where
  "newChatSystem cfg uid uname =
     \<lparr>config = cfg, ws = False, connected = False, reconnectCount = 0,
      userId = uid, userName = uname, currentRoom = None, rooms = [], messages = [],
      typingUsers = Map.empty, unreadCounts = Map.empty, messageQueue = [],
      objects = (\<lambda>_. noMessage), nextObject = 0, wire = [], notifications = [],
      timers = [], console = [], connectPromise = Pending\<rparr>"

text \<open>The constructor of \<open>MediaRoom\<close> (lines 12-41).\<close>

definition newMediaRoom :: media where
  "newMediaRoom =
     \<lparr>peerConnections = [], peers = (\<lambda>_. \<lparr>senders = [], calls = [], closed = False\<rparr>),
      nextPeer = 0, tracks = (\<lambda>_. \<lparr>trackKind = Audio, trackStopped = False\<rparr>),
      localStream = None, screenStream = None, isCallActive = False,
      isScreenSharing = False, roomId = None, participants = [], signaling = None,
      mediaNotifications = [], mediaConsole = []\<rparr>"

section \<open>Room history\<close>





section \<open>Reconnection and the offline queue\<close>

declare processMessageQueue_loop.simps [simp del]

lemma processMessageQueue_loop_connected:
  "connected st \<Longrightarrow> ws st \<Longrightarrow> messageQueue st = q \<Longrightarrow>
   processMessageQueue_loop st =
     st\<lparr>messageQueue := [], wire := wire st @ map (\<lambda>m. MessageFrame (objects st m)) q\<rparr>"
proof (induction q arbitrary: st)
  case Nil
  then show ?case by (subst processMessageQueue_loop.simps) simp
next
  case (Cons m rest)
  let ?st' = "send (st\<lparr>messageQueue := rest\<rparr>) (MessageFrame (objects st m))"
  have st': "?st' = st\<lparr>messageQueue := rest, wire := wire st @ [MessageFrame (objects st m)]\<rparr>"
    using Cons.prems by (simp add: send_def)
  have "processMessageQueue_loop st = processMessageQueue_loop ?st'"
    using Cons.prems(3) by (subst processMessageQueue_loop.simps) simp
  also have "\<dots> = ?st'\<lparr>messageQueue := [], wire := wire ?st' @ map (\<lambda>m. MessageFrame (objects ?st' m)) rest\<rparr>"
    by (rule Cons.IH) (use Cons.prems in \<open>simp_all add: st'\<close>)
  finally show ?case by (simp add: st')
qed

lemma processMessageQueue_connected:
  assumes "connected st" "ws st"
  shows "processMessageQueue st =
     st\<lparr>messageQueue := [],
        wire := wire st @ map (\<lambda>m. MessageFrame (objects st m)) (messageQueue st),
        notifications := notifications st
           @ (if messageQueue st = [] then [] else [NSuccess ''Queued messages sent''])\<rparr>"
proof (cases "messageQueue st = []")
  case True
  then have "st\<lparr>messageQueue := [], wire := wire st, notifications := notifications st\<rparr> = st"
    by (cases st) simp
  with True show ?thesis by (simp add: processMessageQueue_def)
next
  case False
  then show ?thesis
    using assms
    by (simp add: processMessageQueue_def notify_def processMessageQueue_loop_connected)
qed

lemma ws_onopen_effect:
  assumes "ws st"
  shows "ws_onopen st =
     settle Resolved (st\<lparr>connected := True, reconnectCount := 0, messageQueue := [],
        wire := wire st @ AuthFrame (userId st) (userName st)
                 # map (\<lambda>m. MessageFrame (objects st m)) (messageQueue st),
        notifications := notifications st
           @ (if messageQueue st = [] then [] else [NSuccess ''Queued messages sent''])
           @ [NSuccess ''Connected to chat server'']\<rparr>)"
  using assms
  by (simp add: ws_onopen_def Let_def send_def processMessageQueue_connected notify_def)

lemma sendMessage_offline:
  assumes "\<not> connected st" "currentRoom st = Some rid" "rid \<noteq> []"
  shows "sendMessage st text None newId now =
     (addMessageToRoom (st\<lparr>objects := (objects st)(nextObject st := outgoing st rid (text, newId, now)),
                            nextObject := nextObject st + 1\<rparr>) rid (nextObject st))
       \<lparr>messageQueue := messageQueue st @ [nextObject st],
        notifications := notifications st @ [NInfo ''Message queued (offline)'']\<rparr>"
  using assms
  by (simp add: sendMessage_def js_or_def truthy_def newObject_def outgoing_def Let_def
        notify_def addMessageToRoom_def)

lemma sendAll_offline:
  assumes "\<not> connected st" "currentRoom st = Some rid" "rid \<noteq> []"
  shows "connected (sendAll st inputs) = connected st
       \<and> currentRoom (sendAll st inputs) = currentRoom st
       \<and> userId (sendAll st inputs) = userId st
       \<and> userName (sendAll st inputs) = userName st
       \<and> wire (sendAll st inputs) = wire st
       \<and> nextObject (sendAll st inputs) = nextObject st + length inputs
       \<and> messageQueue (sendAll st inputs)
           = messageQueue st @ [nextObject st ..< nextObject st + length inputs]
       \<and> (\<forall>r < nextObject st. objects (sendAll st inputs) r = objects st r)
       \<and> map (objects (sendAll st inputs)) [nextObject st ..< nextObject st + length inputs]
           = map (outgoing st rid) inputs"
proof (induction inputs rule: rev_induct)
  case Nil
  then show ?case by (simp add: sendAll_def)
next
  case (snoc x xs)
  let ?s = "sendAll st xs"
  obtain body newId now where x: "x = (body, newId, now)" by (cases x) auto
  let ?x = "(body, newId, now)"
  have step: "sendAll st (xs @ [?x]) = sendMessage ?s body None newId now"
    by (simp add: sendAll_def)
  have pre: "\<not> connected ?s" "currentRoom ?s = Some rid"
    using snoc.IH assms by simp_all
  note eq = step sendMessage_offline [OF pre assms(3)]
  have out: "outgoing ?s rid ?x = outgoing st rid ?x"
    using snoc.IH by (simp add: outgoing_def)
  have flds: "connected (sendAll st (xs @ [?x])) = connected st"
       "currentRoom (sendAll st (xs @ [?x])) = currentRoom st"
       "userId (sendAll st (xs @ [?x])) = userId st"
       "userName (sendAll st (xs @ [?x])) = userName st"
       "wire (sendAll st (xs @ [?x])) = wire st"
       "nextObject (sendAll st (xs @ [?x])) = nextObject st + length (xs @ [?x])"
       "messageQueue (sendAll st (xs @ [?x]))
           = messageQueue st @ [nextObject st ..< nextObject st + length (xs @ [?x])]"
    using snoc.IH by (simp_all add: eq addMessageToRoom_def Let_def)
  have objs: "objects (sendAll st (xs @ [?x]))
      = (objects ?s)(nextObject st + length xs := outgoing st rid ?x)"
    using snoc.IH by (simp add: eq addMessageToRoom_def Let_def out)
  have old: "\<forall>r < nextObject st. objects (sendAll st (xs @ [?x])) r = objects st r"
    using snoc.IH by (simp add: objs)
  have new: "map (objects (sendAll st (xs @ [?x]))) [nextObject st ..< nextObject st + length (xs @ [?x])]
           = map (outgoing st rid) (xs @ [?x])"
  proof -
    have "map (objects (sendAll st (xs @ [?x]))) [nextObject st ..< nextObject st + length xs]
         = map (objects ?s) [nextObject st ..< nextObject st + length xs]"
      by (simp add: objs)
    then show ?thesis using snoc.IH by (simp add: objs)
  qed
  from flds old new show ?case unfolding x by blast
qed


lemma ws_onopen_connect_fields:
  "reconnectCount (ws_onopen (connect st)) = 0"
  "connected (ws_onopen (connect st))"
  "messageQueue (ws_onopen (connect st)) = []"
  "wire (ws_onopen (connect st)) = wire st @ AuthFrame (userId st) (userName st)
       # map (\<lambda>m. MessageFrame (objects st m)) (messageQueue st)"
  "connectPromise (ws_onopen (connect st)) = Resolved"
  by (simp_all add: ws_onopen_effect connect_def settle_def)

text \<open>
  Claim C1. When the socket opens after a \<open>connect\<close> (the connection is up again),
  the reconnect counter is 0, and the offline queue has been drained in first-in
  first-out order: the wire has received the authentication frame followed by one
  message frame per queued message, in queue order, and the queue is empty afterwards
  (so no message can be sent a second time by a later drain). In particular, for every
  sequence of \<open>sendMessage\<close> calls issued while disconnected in a selected room, the
  frames that reach the wire on reconnection are the messages still queued from before,
  then exactly the messages of these calls, each once, in the order of the calls.
\<close>

theorem reconnect_resets_counter_and_drains_queue:
  "reconnectCount (ws_onopen (connect st)) = 0
   \<and> connected (ws_onopen (connect st))
   \<and> messageQueue (ws_onopen (connect st)) = []
   \<and> wire (ws_onopen (connect st))
       = wire st @ AuthFrame (userId st) (userName st)
           # map (\<lambda>m. MessageFrame (objects st m)) (messageQueue st)
   \<and> (\<forall>inputs rid.
         \<not> connected st \<and> currentRoom st = Some rid \<and> rid \<noteq> []
         \<and> (\<forall>r \<in> set (messageQueue st). r < nextObject st) \<longrightarrow>
           wire (ws_onopen (connect (sendAll st inputs)))
             = wire st @ AuthFrame (userId st) (userName st)
                 # map (\<lambda>m. MessageFrame (objects st m)) (messageQueue st)
                 @ map (\<lambda>i. MessageFrame (outgoing st rid i)) inputs
         \<and> messageQueue (ws_onopen (connect (sendAll st inputs))) = [])"
proof (intro conjI allI impI)
  fix inputs rid
  assume pre: "\<not> connected st \<and> currentRoom st = Some rid \<and> rid \<noteq> []
         \<and> (\<forall>r \<in> set (messageQueue st). r < nextObject st)"
  let ?s = "sendAll st inputs"
  let ?n = "nextObject st"
  from pre have off: "\<not> connected st" "currentRoom st = Some rid" "rid \<noteq> []" by simp_all
  note inv = sendAll_offline [OF off, of inputs]
  have old: "map (\<lambda>m. MessageFrame (objects ?s m)) (messageQueue st)
           = map (\<lambda>m. MessageFrame (objects st m)) (messageQueue st)"
    using inv pre by simp
  have new: "map (\<lambda>m. MessageFrame (objects ?s m)) [?n ..< ?n + length inputs]
           = map (\<lambda>i. MessageFrame (outgoing st rid i)) inputs"
  proof -
    have "map (\<lambda>m. MessageFrame (objects ?s m)) [?n ..< ?n + length inputs]
        = map MessageFrame (map (objects ?s) [?n ..< ?n + length inputs])"
      by simp
    also have "\<dots> = map MessageFrame (map (outgoing st rid) inputs)"
      using inv by simp
    finally show ?thesis by simp
  qed
  show "wire (ws_onopen (connect ?s))
             = wire st @ AuthFrame (userId st) (userName st)
                 # map (\<lambda>m. MessageFrame (objects st m)) (messageQueue st)
                 @ map (\<lambda>i. MessageFrame (outgoing st rid i)) inputs"
    using inv old new by (simp add: ws_onopen_connect_fields del: map_map)
  show "messageQueue (ws_onopen (connect ?s)) = []"
    by (rule ws_onopen_connect_fields)
qed (rule ws_onopen_connect_fields)+

theorem reconnect_resets_counter_and_drains_queue_witness:
  "wire (ws_onopen (connect (sendAll
       ((newChatSystem defaultConfig ''u1'' ''Abebe'')\<lparr>currentRoom := Some ''r1''\<rparr>)
       [(''selam'', ''msg_1'', 10), (''dehna'', ''msg_2'', 20)])))
   = [AuthFrame ''u1'' ''Abebe'',
      MessageFrame \<lparr>msgId = ''msg_1'', msgRoomId = ''r1'', msgUserId = ''u1'',
        msgUserName = ''Abebe'', msgText = ''selam'', msgTimestamp = 10, msgStatus = ''sending''\<rparr>,
      MessageFrame \<lparr>msgId = ''msg_2'', msgRoomId = ''r1'', msgUserId = ''u1'',
        msgUserName = ''Abebe'', msgText = ''dehna'', msgTimestamp = 20, msgStatus = ''sending''\<rparr>]"
  using reconnect_resets_counter_and_drains_queue
    [of "(newChatSystem defaultConfig ''u1'' ''Abebe'')\<lparr>currentRoom := Some ''r1''\<rparr>"]
  by (simp add: newChatSystem_def defaultConfig_def outgoing_def)


section \<open>Disconnection and backoff\<close>

lemma handleIncomingMessage_connection:
  "config (handleIncomingMessage st m) = config st
   \<and> timers (handleIncomingMessage st m) = timers st
   \<and> reconnectCount (handleIncomingMessage st m) = reconnectCount st
   \<and> messageQueue (handleIncomingMessage st m) = messageQueue st
   \<and> connected (handleIncomingMessage st m) = connected st
   \<and> ws (handleIncomingMessage st m) = ws st"
  by (simp add: handleIncomingMessage_def updateMessageStatus_def newObject_def
        addMessageToRoom_def markMessageAsRead_def send_def incrementUnreadCount_def
        notify_def Let_def split: option.splits)

lemma handleMessage_connection:
  "config (handleMessage st e) = config st
   \<and> timers (handleMessage st e) = timers st
   \<and> reconnectCount (handleMessage st e) = reconnectCount st
   \<and> messageQueue (handleMessage st e) = messageQueue st
   \<and> connected (handleMessage st e) = connected st
   \<and> ws (handleMessage st e) = ws st"
  by (simp add: handleMessage_def dispatch_def handleIncomingFile_def
        handleIncomingMessage_connection handleTypingIndicator_def notify_def send_def
        consoleError_def split: inbound.splits option.splits)








section \<open>Inbound messages\<close>







section \<open>The message router\<close>

lemma dispatch_unknown:
  "dataType d \<notin> set caseLabels \<Longrightarrow> dispatch st d = Returns st"
  by (simp add: caseLabels_def dispatch_def)






section \<open>Sending\<close>

lemma sendMessage_online:
  assumes "connected st" "js_or rid (currentRoom st) = Some target" "target \<noteq> []"
  shows "sendMessage st body rid newId now =
     send (addMessageToRoom (st\<lparr>objects := (objects st)(nextObject st := outgoing st target (body, newId, now)),
                            nextObject := nextObject st + 1\<rparr>) target (nextObject st))
          (MessageFrame (outgoing st target (body, newId, now)))"
  using assms
  by (simp add: sendMessage_def truthy_def newObject_def outgoing_def Let_def
        addMessageToRoom_def)

lemma sendMessage_queued:
  assumes "\<not> connected st" "js_or rid (currentRoom st) = Some target" "target \<noteq> []"
  shows "sendMessage st body rid newId now =
     (addMessageToRoom (st\<lparr>objects := (objects st)(nextObject st := outgoing st target (body, newId, now)),
                            nextObject := nextObject st + 1\<rparr>) target (nextObject st))
       \<lparr>messageQueue := messageQueue st @ [nextObject st],
        notifications := notifications st @ [NInfo ''Message queued (offline)'']\<rparr>"
  using assms
  by (simp add: sendMessage_def truthy_def newObject_def outgoing_def Let_def
        notify_def addMessageToRoom_def)

text \<open>
  Claim C2, as the code has it. \<open>send(frame)\<close> hands the frame to the socket at once
  when the connection is up; otherwise it returns at once, raises nothing and changes
  nothing: the frame is dropped, not queued. Queueing is done one level up, and for chat
  messages only: \<open>sendMessage\<close> appends the new message to the outbound queue while the
  connection is down (nothing reaches the wire), and sends its frame at once, leaving the
  queue alone, while the connection is up.
\<close>

theorem send_transmits_or_drops:
  "(connected st \<and> ws st \<longrightarrow> send st f = st\<lparr>wire := wire st @ [f]\<rparr>)
   \<and> (\<not> (connected st \<and> ws st) \<longrightarrow> send st f = st)
   \<and> (\<forall>target. js_or rid (currentRoom st) = Some target \<and> target \<noteq> [] \<and> \<not> connected st \<longrightarrow>
         messageQueue (sendMessage st body rid newId now) = messageQueue st @ [nextObject st]
       \<and> objects (sendMessage st body rid newId now) (nextObject st)
           = outgoing st target (body, newId, now)
       \<and> wire (sendMessage st body rid newId now) = wire st)
   \<and> (\<forall>target. js_or rid (currentRoom st) = Some target \<and> target \<noteq> [] \<and> connected st \<and> ws st \<longrightarrow>
         wire (sendMessage st body rid newId now)
           = wire st @ [MessageFrame (outgoing st target (body, newId, now))]
       \<and> messageQueue (sendMessage st body rid newId now) = messageQueue st)"
proof (intro conjI allI impI)
  fix target
  assume h: "js_or rid (currentRoom st) = Some target \<and> target \<noteq> [] \<and> \<not> connected st"
  then have eq: "sendMessage st body rid newId now =
     (addMessageToRoom (st\<lparr>objects := (objects st)(nextObject st := outgoing st target (body, newId, now)),
                            nextObject := nextObject st + 1\<rparr>) target (nextObject st))
       \<lparr>messageQueue := messageQueue st @ [nextObject st],
        notifications := notifications st @ [NInfo ''Message queued (offline)'']\<rparr>"
    by (intro sendMessage_queued) simp_all
  show "messageQueue (sendMessage st body rid newId now) = messageQueue st @ [nextObject st]"
    by (simp add: eq)
  show "objects (sendMessage st body rid newId now) (nextObject st)
           = outgoing st target (body, newId, now)"
    by (simp add: eq addMessageToRoom_def Let_def)
  show "wire (sendMessage st body rid newId now) = wire st"
    by (simp add: eq addMessageToRoom_def Let_def)
next
  fix target
  assume h: "js_or rid (currentRoom st) = Some target \<and> target \<noteq> [] \<and> connected st \<and> ws st"
  then have eq: "sendMessage st body rid newId now =
     send (addMessageToRoom (st\<lparr>objects := (objects st)(nextObject st := outgoing st target (body, newId, now)),
                            nextObject := nextObject st + 1\<rparr>) target (nextObject st))
          (MessageFrame (outgoing st target (body, newId, now)))"
    by (intro sendMessage_online) simp_all
  show "wire (sendMessage st body rid newId now)
           = wire st @ [MessageFrame (outgoing st target (body, newId, now))]"
    using h by (simp add: eq addMessageToRoom_def Let_def send_def)
  show "messageQueue (sendMessage st body rid newId now) = messageQueue st"
    using h by (simp add: eq addMessageToRoom_def Let_def send_def)
qed (simp_all add: send_def)

theorem send_transmits_or_drops_witness:
  "send ((newChatSystem defaultConfig ''u1'' ''Abebe'')\<lparr>ws := True, connected := True\<rparr>) (LeaveFrame ''r1'')
     = (newChatSystem defaultConfig ''u1'' ''Abebe'')\<lparr>ws := True, connected := True, wire := [LeaveFrame ''r1'']\<rparr>
   \<and> send ((newChatSystem defaultConfig ''u1'' ''Abebe'')\<lparr>ws := True\<rparr>) (LeaveFrame ''r1'')
     = (newChatSystem defaultConfig ''u1'' ''Abebe'')\<lparr>ws := True\<rparr>
   \<and> messageQueue (sendMessage ((newChatSystem defaultConfig ''u1'' ''Abebe'')\<lparr>ws := True\<rparr>)
         ''selam'' (Some ''r1'') ''msg_1'' 10) = [0]"
  using send_transmits_or_drops
     [of "(newChatSystem defaultConfig ''u1'' ''Abebe'')\<lparr>ws := True, connected := True\<rparr>" "LeaveFrame ''r1''"]
     send_transmits_or_drops
     [of "(newChatSystem defaultConfig ''u1'' ''Abebe'')\<lparr>ws := True\<rparr>" "LeaveFrame ''r1''"
         "Some ''r1''" "''selam''" "''msg_1''" 10]
  by (simp add: newChatSystem_def js_or_def truthy_def)


text \<open>A frame given to \<open>send\<close> while the connection is down is neither queued nor
  transmitted.\<close>

theorem send_while_disconnected_counterexample:
  "messageQueue (send ((newChatSystem defaultConfig ''u1'' ''Abebe'')\<lparr>ws := True\<rparr>) (LeaveFrame ''r1'')) = []
   \<and> wire (send ((newChatSystem defaultConfig ''u1'' ''Abebe'')\<lparr>ws := True\<rparr>) (LeaveFrame ''r1'')) = []
   \<and> send ((newChatSystem defaultConfig ''u1'' ''Abebe'')\<lparr>ws := True\<rparr>) (LeaveFrame ''r1'')
       = (newChatSystem defaultConfig ''u1'' ''Abebe'')\<lparr>ws := True\<rparr>"
  by (simp add: send_def newChatSystem_def)

section \<open>Connecting\<close>

text \<open>
  Claim C4, as the code has it. \<open>connect\<close> creates the socket and a pending promise and
  starts no timer. When the socket opens, the connection is marked connected, the
  authentication frame is sent (followed by the queued messages) and the promise is
  resolved at once, without waiting for any frame from the server; no inbound frame
  settles the promise. The promise is rejected when the socket reports an error before
  it has opened. There is no timeout.
\<close>

theorem connect_resolves_on_open:
  "ws (connect st) \<and> connectPromise (connect st) = Pending
   \<and> timers (connect st) = timers st \<and> wire (connect st) = wire st
   \<and> connectPromise (ws_onopen (connect st)) = Resolved
   \<and> connected (ws_onopen (connect st))
   \<and> wire (ws_onopen (connect st))
       = wire st @ AuthFrame (userId st) (userName st)
           # map (\<lambda>m. MessageFrame (objects st m)) (messageQueue st)
   \<and> timers (ws_onopen (connect st)) = timers st
   \<and> connectPromise (ws_onerror (connect st)) = Rejected
   \<and> connectPromise (ws_onmessage (connect st) e) = Pending
   \<and> timers (ws_onmessage (connect st) e) = timers st"
proof -
  have "connectPromise (handleMessage s e) = connectPromise s" for s
    by (simp add: handleMessage_def dispatch_def handleIncomingFile_def
        handleIncomingMessage_def updateMessageStatus_def newObject_def
        addMessageToRoom_def markMessageAsRead_def send_def incrementUnreadCount_def
        handleTypingIndicator_def notify_def consoleError_def Let_def
        split: inbound.splits option.splits)
  then show ?thesis
    by (simp add: ws_onopen_connect_fields ws_onmessage_def handleMessage_connection)
       (simp add: connect_def ws_onerror_def settle_def consoleError_def ws_onopen_effect)
qed

theorem connect_resolves_on_open_witness:
  "connectPromise (ws_onopen (connect (newChatSystem defaultConfig ''u1'' ''Abebe''))) = Resolved
   \<and> wire (ws_onopen (connect (newChatSystem defaultConfig ''u1'' ''Abebe''))) = [AuthFrame ''u1'' ''Abebe'']"
  using connect_resolves_on_open [of "newChatSystem defaultConfig ''u1'' ''Abebe''"]
  by (simp add: newChatSystem_def)


text \<open>The promise of \<open>connect\<close> is resolved by the open event alone, with no frame
  received; \<open>connect\<close> schedules no timer, and without an event the promise stays pending.\<close>

theorem connect_without_acknowledgement_counterexample:
  "connectPromise (run (connect (newChatSystem defaultConfig ''u1'' ''Abebe'')) [WsOpen]) = Resolved
   \<and> timers (connect (newChatSystem defaultConfig ''u1'' ''Abebe'')) = []
   \<and> connectPromise (run (connect (newChatSystem defaultConfig ''u1'' ''Abebe'')) []) = Pending"
  by (simp add: run_def ws_onopen_connect_fields)
     (simp add: connect_def newChatSystem_def)


section \<open>Track replacement\<close>

lemma replaceTrack_unchanged:
  "\<forall>s \<in> set ss. \<not> carries tr k s \<Longrightarrow> replaceTrack tr k new ss = ss"
  by (induction ss) simp_all

lemma replaceTrack_first:
  "\<exists>s \<in> set ss. carries tr k s \<Longrightarrow>
   \<exists>pre s post. ss = pre @ s # post \<and> (\<forall>x \<in> set pre. \<not> carries tr k x) \<and> carries tr k s
      \<and> replaceTrack tr k new ss = pre @ new # post"
proof (induction ss)
  case Nil
  then show ?case by simp
next
  case (Cons a ss)
  show ?case
  proof (cases "carries tr k a")
    case True
    then have "a # ss = [] @ a # ss \<and> (\<forall>x \<in> set []. \<not> carries tr k x) \<and> carries tr k a
      \<and> replaceTrack tr k new (a # ss) = [] @ new # ss"
      by simp
    then show ?thesis by blast
  next
    case False
    with Cons.prems have "\<exists>s \<in> set ss. carries tr k s" by auto
    from Cons.IH [OF this] obtain pre s post where
      h: "ss = pre @ s # post" "\<forall>x \<in> set pre. \<not> carries tr k x" "carries tr k s"
         "replaceTrack tr k new ss = pre @ new # post"
      by blast
    with False have "a # ss = (a # pre) @ s # post \<and> (\<forall>x \<in> set (a # pre). \<not> carries tr k x)
      \<and> carries tr k s \<and> replaceTrack tr k new (a # ss) = (a # pre) @ new # post"
      by simp
    then show ?thesis by blast
  qed
qed

lemma replaceTrack_length: "length (replaceTrack tr k new ss) = length ss"
  by (induction ss) simp_all

lemma replaceTrack_other:
  "i < length ss \<Longrightarrow> \<not> carries tr k (ss ! i) \<Longrightarrow> replaceTrack tr k new ss ! i = ss ! i"
proof (induction ss arbitrary: i)
  case Nil
  then show ?case by simp
next
  case (Cons a ss)
  then show ?case by (cases i) auto
qed

lemma carries_kind: "carries tr Audio s \<Longrightarrow> \<not> carries tr Video s"
  by (auto simp: carries_def split: option.splits)

lemma replaceTrack_idem:
  "carries tr k new \<Longrightarrow>
   replaceTrack tr k new (replaceTrack tr k new ss) = replaceTrack tr k new ss"
  by (induction ss) simp_all

lemma replaceTrack_kinds:
  "\<forall>t. trackKind (tr' t) = trackKind (tr t) \<Longrightarrow> replaceTrack tr' k new ss = replaceTrack tr k new ss"
  by (induction ss) (simp_all add: carries_def split: option.splits)

lemma onPeer_same: "onPeer f a ps (snd a) = f (ps (snd a))"
  by (simp add: onPeer_def)

lemma onPeer_other: "r \<noteq> snd a \<Longrightarrow> onPeer f a ps r = ps r"
  by (simp add: onPeer_def)

lemma fold_onPeer_outside:
  "r \<notin> snd ` set pcs \<Longrightarrow> fold (onPeer f) pcs ps r = ps r"
  by (induction pcs arbitrary: ps) (simp_all add: onPeer_other)

lemma fold_onPeer_idem:
  assumes "\<And>p. f (f p) = f p"
  shows "r \<in> snd ` set pcs \<Longrightarrow> fold (onPeer f) pcs ps r = f (ps r)"
proof (induction pcs arbitrary: ps)
  case Nil
  then show ?case by simp
next
  case (Cons a pcs)
  show ?case
  proof (cases "r \<in> snd ` set pcs")
    case True
    from Cons.IH [OF True, of "onPeer f a ps"] assms show ?thesis
      by (cases "r = snd a") (simp_all add: onPeer_same onPeer_other)
  next
    case False
    with Cons.prems have "r = snd a" by auto
    with fold_onPeer_outside [OF False, of f "onPeer f a ps"] show ?thesis
      by (simp add: onPeer_same)
  qed
qed


lemma fold_stop_kind: "trackKind (fold stop stream tr t) = trackKind (tr t)"
  by (induction stream arbitrary: tr) (simp_all add: stop_def)

lemma fold_stop_stopped:
  "trackStopped (fold stop stream tr t) \<longleftrightarrow> t \<in> set stream \<or> trackStopped (tr t)"
  by (induction stream arbitrary: tr) (auto simp: stop_def)

lemma stopTracks_kind: "trackKind (tracks (stopTracks stream st) t) = trackKind (tracks st t)"
  by (simp add: stopTracks_def fold_stop_kind)

lemma stopTracks_stopped:
  "trackStopped (tracks (stopTracks stream st) t) \<longleftrightarrow> t \<in> set stream \<or> trackStopped (tracks st t)"
  by (simp add: stopTracks_def fold_stop_stopped)

lemma firstTrack_kind: "firstTrack tr k stream = Some t \<Longrightarrow> carries tr k (Some t) \<and> t \<in> set stream"
  by (induction stream) (auto simp: firstTrack_def carries_def split: if_splits)

lemma replaceInPeer_idem:
  "carries tr k new \<Longrightarrow> replaceInPeer tr k new (replaceInPeer tr k new p) = replaceInPeer tr k new p"
  by (simp add: replaceInPeer_def replaceTrack_idem)

lemma forEachPeer_replace:
  assumes "carries tr k new" "(key, pc) \<in> set (peerConnections st)"
  shows "senders (peers (forEachPeer (replaceInPeer tr k new) st) pc)
           = replaceTrack tr k new (senders (peers st pc))"
proof -
  from assms(2) have "pc \<in> snd ` set (peerConnections st)" by force
  then have "fold (onPeer (replaceInPeer tr k new)) (peerConnections st) (peers st) pc
           = replaceInPeer tr k new (peers st pc)"
    by (rule fold_onPeer_idem [OF replaceInPeer_idem [OF assms(1)]])
  then show ?thesis by (simp add: forEachPeer_def replaceInPeer_def)
qed

text \<open>
  Claim C6, as the code has it. Let a session be stored in \<open>peerConnections\<close>. When
  screen sharing starts with a captured stream whose first video track is
  \<open>screenTrack\<close>, the call returns and the session's senders are those before with the
  track of the first sender that carried a video track replaced by \<open>screenTrack\<close>; when
  screen sharing stops and the local stream has a camera track, the same replacement
  puts the camera track back. The replacement changes the first video sender only: a
  session without a video sender (an audio-only call) keeps all its senders and gets no
  video track, the number of senders never changes, and every sender that carries an
  audio track keeps its track.
\<close>

theorem screen_share_replaces_first_video_sender:
  assumes "(key, pc) \<in> set (peerConnections st)"
  shows "(\<forall>stream screenTrack. firstTrack (tracks st) Video stream = Some screenTrack \<longrightarrow>
           (\<exists>st'. startScreenShare st (Inr stream) = MediaReturns st'
              \<and> senders (peers st' pc)
                   = replaceTrack (tracks st) Video (Some screenTrack) (senders (peers st pc))
              \<and> peerConnections st' = peerConnections st))
       \<and> (\<forall>stream l camera. screenStream st = Some stream \<and> localStream st = Some l
             \<and> firstTrack (tracks st) Video l = Some camera \<longrightarrow>
           senders (peers (stopScreenShare st) pc)
             = replaceTrack (tracks st) Video (Some camera) (senders (peers st pc))
           \<and> peerConnections (stopScreenShare st) = peerConnections st)
       \<and> (\<forall>new ss.
             ((\<exists>s \<in> set ss. carries (tracks st) Video s) \<longrightarrow>
                (\<exists>pre s post. ss = pre @ s # post
                   \<and> (\<forall>x \<in> set pre. \<not> carries (tracks st) Video x)
                   \<and> carries (tracks st) Video s
                   \<and> replaceTrack (tracks st) Video new ss = pre @ new # post))
           \<and> ((\<forall>s \<in> set ss. \<not> carries (tracks st) Video s) \<longrightarrow>
                replaceTrack (tracks st) Video new ss = ss)
           \<and> length (replaceTrack (tracks st) Video new ss) = length ss
           \<and> (\<forall>i < length ss. carries (tracks st) Audio (ss ! i) \<longrightarrow>
                replaceTrack (tracks st) Video new ss ! i = ss ! i))"
proof (intro conjI allI impI)
  fix stream screenTrack
  assume f: "firstTrack (tracks st) Video stream = Some screenTrack"
  let ?st1 = "st\<lparr>screenStream := Some stream\<rparr>"
  let ?st' = "mediaNotify ((forEachPeer (replaceInPeer (tracks st) Video (Some screenTrack)) ?st1)
                \<lparr>isScreenSharing := True\<rparr>) (NSuccess ''Screen sharing started'')"
  have run: "startScreenShare st (Inr stream) = MediaReturns ?st'"
    using f by (simp add: startScreenShare_def Let_def)
  have c: "carries (tracks st) Video (Some screenTrack)"
    using firstTrack_kind [OF f] by simp
  have "(key, pc) \<in> set (peerConnections ?st1)" using assms by simp
  from forEachPeer_replace [OF c this]
  have s: "senders (peers ?st' pc)
             = replaceTrack (tracks st) Video (Some screenTrack) (senders (peers st pc))"
    by (simp add: mediaNotify_def forEachPeer_def)
  have p: "peerConnections ?st' = peerConnections st"
    by (simp add: mediaNotify_def forEachPeer_def)
  from run s p
  show "\<exists>st'. startScreenShare st (Inr stream) = MediaReturns st'
              \<and> senders (peers st' pc)
                   = replaceTrack (tracks st) Video (Some screenTrack) (senders (peers st pc))
              \<and> peerConnections st' = peerConnections st"
    by blast
next
  fix stream l camera
  assume h: "screenStream st = Some stream \<and> localStream st = Some l
             \<and> firstTrack (tracks st) Video l = Some camera"
  let ?st1 = "stopTracks stream st"
  let ?tr = "tracks ?st1"
  have kinds: "\<forall>t. trackKind (?tr t) = trackKind (tracks st t)"
    by (simp add: stopTracks_kind)
  have ft: "firstTrack ?tr Video l = firstTrack (tracks st) Video l"
    unfolding firstTrack_def by (rule find_cong) (simp_all add: stopTracks_kind)
  have run: "stopScreenShare st =
      mediaNotify ((forEachPeer (replaceInPeer ?tr Video (Some camera)) ?st1)
          \<lparr>screenStream := None, isScreenSharing := False\<rparr>) (NSuccess ''Screen sharing stopped'')"
    using h ft by (simp add: stopScreenShare_def Let_def stopTracks_def)
  have c: "carries ?tr Video (Some camera)"
    using firstTrack_kind [of ?tr Video l camera] h ft by simp
  have "(key, pc) \<in> set (peerConnections ?st1)" using assms by (simp add: stopTracks_def)
  from forEachPeer_replace [OF c this]
  have "senders (peers (stopScreenShare st) pc)
          = replaceTrack ?tr Video (Some camera) (senders (peers st pc))"
    by (simp add: run mediaNotify_def forEachPeer_def stopTracks_def)
  then show "senders (peers (stopScreenShare st) pc)
             = replaceTrack (tracks st) Video (Some camera) (senders (peers st pc))"
    by (simp add: replaceTrack_kinds [OF kinds])
  show "peerConnections (stopScreenShare st) = peerConnections st"
    by (simp add: run mediaNotify_def forEachPeer_def stopTracks_def)
next
  fix new ss
  assume "\<exists>s \<in> set ss. carries (tracks st) Video s"
  then show "\<exists>pre s post. ss = pre @ s # post
                   \<and> (\<forall>x \<in> set pre. \<not> carries (tracks st) Video x)
                   \<and> carries (tracks st) Video s
                   \<and> replaceTrack (tracks st) Video new ss = pre @ new # post"
    by (rule replaceTrack_first)
next
  fix new ss
  assume "\<forall>s \<in> set ss. \<not> carries (tracks st) Video s"
  then show "replaceTrack (tracks st) Video new ss = ss"
    by (rule replaceTrack_unchanged)
next
  fix new ss
  show "length (replaceTrack (tracks st) Video new ss) = length ss"
    by (rule replaceTrack_length)
next
  fix new ss i
  assume "i < length ss" "carries (tracks st) Audio (ss ! i)"
  then show "replaceTrack (tracks st) Video new ss ! i = ss ! i"
    by (simp add: replaceTrack_other carries_kind)
qed

theorem screen_share_replaces_first_video_sender_witness:
  "\<exists>st'. startScreenShare
       (snd (createPeerConnection
          (newMediaRoom\<lparr>localStream := Some [1, 2],
             tracks := (\<lambda>_. \<lparr>trackKind = Audio, trackStopped = False\<rparr>)
               (2 := \<lparr>trackKind = Video, trackStopped = False\<rparr>,
                5 := \<lparr>trackKind = Video, trackStopped = False\<rparr>)\<rparr>)
          (Some ''p1''))) (Inr [5]) = MediaReturns st'
     \<and> senders (peers st' 0) = [Some 1, Some 5]"
  using screen_share_replaces_first_video_sender
    [of "Some ''p1''" 0
        "snd (createPeerConnection
          (newMediaRoom\<lparr>localStream := Some [1, 2],
             tracks := (\<lambda>_. \<lparr>trackKind = Audio, trackStopped = False\<rparr>)
               (2 := \<lparr>trackKind = Video, trackStopped = False\<rparr>,
                5 := \<lparr>trackKind = Video, trackStopped = False\<rparr>)\<rparr>)
          (Some ''p1''))",
     THEN conjunct1, rule_format, of "[5]" 5]
  by (auto simp add: createPeerConnection_def newMediaRoom_def Let_def firstTrack_def carries_def)


text \<open>A session created from an audio-only local stream has no video sender; after
  screen sharing has started it still sends the microphone track only, and the screen
  track is not among its senders.\<close>

theorem audio_only_session_keeps_its_senders_counterexample:
  "\<exists>st'. startScreenShare
       (snd (createPeerConnection
          (newMediaRoom\<lparr>localStream := Some [1],
             tracks := (\<lambda>_. \<lparr>trackKind = Audio, trackStopped = False\<rparr>)
               (5 := \<lparr>trackKind = Video, trackStopped = False\<rparr>)\<rparr>)
          (Some ''p1''))) (Inr [5]) = MediaReturns st'
     \<and> map_of (peerConnections st') (Some ''p1'') = Some 0
     \<and> closed (peers st' 0) = False
     \<and> senders (peers st' 0) = [Some 1]
     \<and> Some 5 \<notin> set (senders (peers st' 0))"
  by (simp add: startScreenShare_def createPeerConnection_def newMediaRoom_def Let_def
        firstTrack_def carries_def forEachPeer_def onPeer_def replaceInPeer_def
        mediaNotify_def)


section \<open>Leaving\<close>











section \<open>Signalling frames\<close>







end
